theory Spec2Isabelle
  imports Complex_Main
begin

section \<open>Doubles, vectors and matrices\<close>

text \<open>
  A C++ \<open>double\<close> is either not-a-number or a finite value. Finite arithmetic is taken
  exact (no rounding, no overflow), and the infinities are not kept apart from NaN: every
  operation with a NaN operand, and a division by zero, gives \<open>NaN\<close>. What the model keeps
  of IEEE arithmetic is what the epoch test of \<open>update\<close> and the block arithmetic rely on:
  NaN compares unequal to everything, itself included, and NaN is absorbing.
\<close>

datatype double = NaN | Fin real

definition TUDAT_NAN :: double where
  "TUDAT_NAN = NaN"

text \<open>The C++ comparison \<open>a == b\<close> on doubles.\<close>

fun double_eq :: "double \<Rightarrow> double \<Rightarrow> bool" where
  "double_eq (Fin a) (Fin b) = (a = b)"
| "double_eq _ _ = False"

fun isfinite :: "double \<Rightarrow> bool" where
  "isfinite (Fin a) = True"
| "isfinite NaN = False"

instantiation double :: "{zero, one, plus, minus, uminus, times, inverse}"
begin

definition zero_double :: double where
  "zero_double = Fin 0"

definition one_double :: double where
  "one_double = Fin 1"

definition plus_double :: "double \<Rightarrow> double \<Rightarrow> double" where
  "plus_double a b = (case a of NaN \<Rightarrow> NaN | Fin u \<Rightarrow> (case b of NaN \<Rightarrow> NaN | Fin v \<Rightarrow> Fin (u + v)))"

definition minus_double :: "double \<Rightarrow> double \<Rightarrow> double" where
  "minus_double a b = (case a of NaN \<Rightarrow> NaN | Fin u \<Rightarrow> (case b of NaN \<Rightarrow> NaN | Fin v \<Rightarrow> Fin (u - v)))"

definition uminus_double :: "double \<Rightarrow> double" where
  "uminus_double a = (case a of NaN \<Rightarrow> NaN | Fin u \<Rightarrow> Fin (- u))"

definition times_double :: "double \<Rightarrow> double \<Rightarrow> double" where
  "times_double a b = (case a of NaN \<Rightarrow> NaN | Fin u \<Rightarrow> (case b of NaN \<Rightarrow> NaN | Fin v \<Rightarrow> Fin (u * v)))"

definition divide_double :: "double \<Rightarrow> double \<Rightarrow> double" where
  "divide_double a b =
     (case a of NaN \<Rightarrow> NaN
      | Fin u \<Rightarrow> (case b of NaN \<Rightarrow> NaN | Fin v \<Rightarrow> if v = 0 then NaN else Fin (u / v)))"

definition inverse_double :: "double \<Rightarrow> double" where
  "inverse_double a = (case a of NaN \<Rightarrow> NaN | Fin v \<Rightarrow> if v = 0 then NaN else Fin (1 / v))"

instance ..

end

text \<open>\<open>Eigen::Vector3d\<close> with its components x, y, z; \<open>Eigen::Matrix3d\<close> by its three rows.\<close>

datatype Vector3d = Vector3d double double double

datatype Matrix3d = Matrix3d Vector3d Vector3d Vector3d

fun Vector3d_coeff :: "Vector3d \<Rightarrow> int \<Rightarrow> double" where
  "Vector3d_coeff (Vector3d a b c) i = (if i = 0 then a else if i = 1 then b else c)"

fun Matrix3d_coeff :: "Matrix3d \<Rightarrow> int \<Rightarrow> int \<Rightarrow> double" where
  "Matrix3d_coeff (Matrix3d r0 r1 r2) i j =
     Vector3d_coeff (if i = 0 then r0 else if i = 1 then r1 else r2) j"

fun Vector3d_dot :: "Vector3d \<Rightarrow> Vector3d \<Rightarrow> double" where
  "Vector3d_dot (Vector3d a b c) (Vector3d d e f) = a * d + b * e + c * f"

fun Vector3d_cross :: "Vector3d \<Rightarrow> Vector3d \<Rightarrow> Vector3d" where
  "Vector3d_cross (Vector3d a b c) (Vector3d d e f) =
     Vector3d (b * f - c * e) (c * d - a * f) (a * e - b * d)"

fun Vector3d_plus :: "Vector3d \<Rightarrow> Vector3d \<Rightarrow> Vector3d" where
  "Vector3d_plus (Vector3d a b c) (Vector3d d e f) = Vector3d (a + d) (b + e) (c + f)"

fun Vector3d_uminus :: "Vector3d \<Rightarrow> Vector3d" where
  "Vector3d_uminus (Vector3d a b c) = Vector3d (- a) (- b) (- c)"

fun Vector3d_scale :: "Vector3d \<Rightarrow> double \<Rightarrow> Vector3d" where
  "Vector3d_scale (Vector3d a b c) k = Vector3d (a * k) (b * k) (c * k)"

fun Vector3d_finite :: "Vector3d \<Rightarrow> bool" where
  "Vector3d_finite (Vector3d a b c) = (isfinite a \<and> isfinite b \<and> isfinite c)"

fun Matrix3d_transpose :: "Matrix3d \<Rightarrow> Matrix3d" where
  "Matrix3d_transpose (Matrix3d (Vector3d a b c) (Vector3d d e f) (Vector3d g h i)) =
     Matrix3d (Vector3d a d g) (Vector3d b e h) (Vector3d c f i)"

fun Matrix3d_times_Vector3d :: "Matrix3d \<Rightarrow> Vector3d \<Rightarrow> Vector3d" where
  "Matrix3d_times_Vector3d (Matrix3d r0 r1 r2) v =
     Vector3d (Vector3d_dot r0 v) (Vector3d_dot r1 v) (Vector3d_dot r2 v)"

fun Vector3d_times_Matrix3d :: "Vector3d \<Rightarrow> Matrix3d \<Rightarrow> Vector3d" where
  "Vector3d_times_Matrix3d r (Matrix3d c0 c1 c2) =
     Vector3d (Vector3d_dot r c0) (Vector3d_dot r c1) (Vector3d_dot r c2)"

text \<open>The matrix product: entry (i, j) is row i of the left factor times column j of the right.\<close>

fun Matrix3d_times :: "Matrix3d \<Rightarrow> Matrix3d \<Rightarrow> Matrix3d" where
  "Matrix3d_times (Matrix3d r0 r1 r2) B =
     Matrix3d (Vector3d_times_Matrix3d r0 (Matrix3d_transpose B))
              (Vector3d_times_Matrix3d r1 (Matrix3d_transpose B))
              (Vector3d_times_Matrix3d r2 (Matrix3d_transpose B))"

fun Matrix3d_plus :: "Matrix3d \<Rightarrow> Matrix3d \<Rightarrow> Matrix3d" where
  "Matrix3d_plus (Matrix3d r0 r1 r2) (Matrix3d s0 s1 s2) =
     Matrix3d (Vector3d_plus r0 s0) (Vector3d_plus r1 s1) (Vector3d_plus r2 s2)"

fun Matrix3d_uminus :: "Matrix3d \<Rightarrow> Matrix3d" where
  "Matrix3d_uminus (Matrix3d r0 r1 r2) =
     Matrix3d (Vector3d_uminus r0) (Vector3d_uminus r1) (Vector3d_uminus r2)"

fun Matrix3d_finite :: "Matrix3d \<Rightarrow> bool" where
  "Matrix3d_finite (Matrix3d r0 r1 r2) =
     (Vector3d_finite r0 \<and> Vector3d_finite r1 \<and> Vector3d_finite r2)"

text \<open>
  Eigen's \<open>inverse()\<close> of a fixed 3 by 3 matrix: the cofactors over the determinant, the
  determinant expanded along the first column.
\<close>

fun Matrix3d_inverse :: "Matrix3d \<Rightarrow> Matrix3d" where
  "Matrix3d_inverse (Matrix3d (Vector3d a b c) (Vector3d d e f) (Vector3d g h i)) =
     (let c00 = e * i - f * h; c10 = c * h - b * i; c20 = b * f - c * e;
          det = c00 * a + c10 * d + c20 * g;
          invdet = 1 / det
      in Matrix3d
           (Vector3d_scale (Vector3d c00 c10 c20) invdet)
           (Vector3d ((f * g - d * i) * invdet) ((a * i - c * g) * invdet) ((c * d - a * f) * invdet))
           (Vector3d ((d * h - e * g) * invdet) ((b * g - a * h) * invdet) ((a * e - b * d) * invdet)))"

text \<open>
  Modelled from the spec: \<open>linear_algebra::getCrossProductMatrix\<close> is declared in
  linearAlgebra.h, which is not among the sources. The spec describes its result as the
  skew-symmetric matrix \<open>[v\<times>]\<close> with \<open>[v\<times>]w = v \<times> w\<close> for every vector w.
\<close>

fun getCrossProductMatrix :: "Vector3d \<Rightarrow> Matrix3d" where
  "getCrossProductMatrix (Vector3d x y z) =
     Matrix3d (Vector3d 0 (- z) y) (Vector3d z 0 (- x)) (Vector3d (- y) x 0)"

section \<open>InertialTorquePartial\<close>

text \<open>
  The object: the members that the class inherits from \<open>TorquePartial\<close> and uses (the two
  body names and the epoch marker \<open>currentTime_\<close>), the four bound accessor functions and
  the seven cached quantities. A member \<open>name_\<close> of the source is the field \<open>name\<close> here.

  A \<open>std::function< T( ) >\<close> reads state that the object does not own and may change it, so
  a bound accessor is a function from the surrounding world \<open>'w\<close> to its result and the
  world after the call. A call that is not made leaves the world as it was.
\<close>

record 'w InertialTorquePartial =
  acceleratedBody :: string
  acceleratingBody :: string
  currentTime :: double
  angularVelocityFunction :: "'w \<Rightarrow> Vector3d \<times> 'w"
  inertiaTensorFunction :: "'w \<Rightarrow> Matrix3d \<times> 'w"
  getInertiaTensorNormalizationFactor :: "'w \<Rightarrow> double \<times> 'w"
  bodyGravitationalParameterFunction :: "'w \<Rightarrow> double \<times> 'w"
  currentAngularVelocityVector :: Vector3d
  currentAngularVelocityCrossProductMatrix :: Matrix3d
  currentInertiaTensor :: Matrix3d
  currentInverseInertiaTensor :: Matrix3d
  currentPartialDerivativeWrtAngularVelocity :: Matrix3d
  currentInertiaTensorNormalizationFactor :: double
  currentGravitationalParameter :: double

text \<open>
  The constructor binds the four accessors and passes the body name twice to the base
  class. It does not initialise the cached members: they keep whatever the memory \<open>mem\<close>
  held, which is why the constructor takes it as an argument.

  Modelled from the spec: the base class constructor is not among the sources; by the spec
  the epoch marker is the not-a-time sentinel before first use.
\<close>

definition InertialTorquePartial_ctor ::
  "'w InertialTorquePartial \<Rightarrow> ('w \<Rightarrow> Vector3d \<times> 'w) \<Rightarrow> ('w \<Rightarrow> Matrix3d \<times> 'w) \<Rightarrow>
   ('w \<Rightarrow> double \<times> 'w) \<Rightarrow> ('w \<Rightarrow> double \<times> 'w) \<Rightarrow> string \<Rightarrow> 'w InertialTorquePartial" where
  "InertialTorquePartial_ctor mem angularVelocityFn inertiaTensorFn normalizationFn
       gravitationalParameterFn body =
     mem\<lparr>acceleratedBody := body,
         acceleratingBody := body,
         currentTime := TUDAT_NAN,
         angularVelocityFunction := angularVelocityFn,
         inertiaTensorFunction := inertiaTensorFn,
         getInertiaTensorNormalizationFactor := normalizationFn,
         bodyGravitationalParameterFunction := gravitationalParameterFn\<rparr>"

text \<open>
  \<open>update\<close>: the accessors are called in the order of the source (angular velocity,
  normalization factor, gravitational parameter, inertia tensor), each threading the world.
  No statement of the body assigns \<open>currentTime_\<close>. A call \<open>update( )\<close> without argument is
  \<open>update p TUDAT_NAN\<close>.
\<close>

definition update :: "'w InertialTorquePartial \<Rightarrow> double \<Rightarrow> 'w \<Rightarrow> 'w InertialTorquePartial \<times> 'w" where
  "update p time w =
     (if \<not> double_eq (currentTime p) time then
        (case angularVelocityFunction p w of (omega, w1) \<Rightarrow>
         case getInertiaTensorNormalizationFactor p w1 of (factor, w2) \<Rightarrow>
         case bodyGravitationalParameterFunction p w2 of (mu, w3) \<Rightarrow>
         case inertiaTensorFunction p w3 of (inertia, w4) \<Rightarrow>
           (p\<lparr>currentAngularVelocityVector := omega,
              currentAngularVelocityCrossProductMatrix := getCrossProductMatrix omega,
              currentInertiaTensorNormalizationFactor := factor,
              currentGravitationalParameter := mu,
              currentInertiaTensor := inertia,
              currentInverseInertiaTensor := Matrix3d_inverse inertia,
              currentPartialDerivativeWrtAngularVelocity :=
                Matrix3d_plus
                  (Matrix3d_times (Matrix3d_uminus (getCrossProductMatrix omega)) inertia)
                  (getCrossProductMatrix (Matrix3d_times_Vector3d inertia omega))\<rparr>,
            w4))
      else (p, w))"

text \<open>
  The state partials write into a block of the caller's matrix. \<open>Eigen::Block< Eigen::MatrixXd >\<close>
  is a view with its own numbers of rows and columns (signed, as Eigen's indices are) and
  its coefficients; what the view does not cover is not reachable through it.
\<close>

record MatrixXd =
  rows :: int
  cols :: int
  coeff :: "int \<Rightarrow> int \<Rightarrow> double"

text \<open>
  The assertion that Eigen makes when \<open>block( startRow, startCol, blockRows, blockCols )\<close>
  is formed.
\<close>

definition block_fits :: "MatrixXd \<Rightarrow> int \<Rightarrow> int \<Rightarrow> int \<Rightarrow> int \<Rightarrow> bool" where
  "block_fits M startRow startCol blockRows blockCols =
     (startRow \<ge> 0 \<and> blockRows \<ge> 0 \<and> startRow \<le> rows M - blockRows \<and>
      startCol \<ge> 0 \<and> blockCols \<ge> 0 \<and> startCol \<le> cols M - blockCols)"

definition in_block3 :: "int \<Rightarrow> int \<Rightarrow> int \<Rightarrow> int \<Rightarrow> bool" where
  "in_block3 startRow startCol i j =
     (startRow \<le> i \<and> i < startRow + 3 \<and> startCol \<le> j \<and> j < startCol + 3)"

text \<open>
  \<open>M.block( startRow, startCol, 3, 3 ) += P\<close> and \<open>... -= P\<close>; \<open>None\<close> is the failed
  assertion.
\<close>

definition block3_plus_assign :: "MatrixXd \<Rightarrow> int \<Rightarrow> int \<Rightarrow> Matrix3d \<Rightarrow> MatrixXd option" where
  "block3_plus_assign M startRow startCol P =
     (if block_fits M startRow startCol 3 3 then
        Some (M\<lparr>coeff := (\<lambda>i j. if in_block3 startRow startCol i j
                                 then coeff M i j + Matrix3d_coeff P (i - startRow) (j - startCol)
                                 else coeff M i j)\<rparr>)
      else None)"

definition block3_minus_assign :: "MatrixXd \<Rightarrow> int \<Rightarrow> int \<Rightarrow> Matrix3d \<Rightarrow> MatrixXd option" where
  "block3_minus_assign M startRow startCol P =
     (if block_fits M startRow startCol 3 3 then
        Some (M\<lparr>coeff := (\<lambda>i j. if in_block3 startRow startCol i j
                                 then coeff M i j - Matrix3d_coeff P (i - startRow) (j - startCol)
                                 else coeff M i j)\<rparr>)
      else None)"

text \<open>
  The member functions are not \<open>const\<close>: each returns the object next to its result, so
  that leaving the object alone is a statement about the function.
\<close>

definition isStateDerivativeDependentOnIntegratedNonRotationalState ::
  "'w InertialTorquePartial \<Rightarrow> string \<times> string \<Rightarrow> 'ist \<Rightarrow> bool \<times> 'w InertialTorquePartial" where
  "isStateDerivativeDependentOnIntegratedNonRotationalState p stateReferencePoint integratedStateType =
     (False, p)"

definition wrtOrientationOfAcceleratedBody ::
  "'w InertialTorquePartial \<Rightarrow> MatrixXd \<Rightarrow> bool \<Rightarrow> int \<Rightarrow> int \<Rightarrow> 'w InertialTorquePartial \<times> MatrixXd" where
  "wrtOrientationOfAcceleratedBody p partialMatrix addContribution startRow startColumn =
     (p, partialMatrix)"

definition wrtRotationalVelocityOfAcceleratedBody ::
  "'w InertialTorquePartial \<Rightarrow> MatrixXd \<Rightarrow> bool \<Rightarrow> int \<Rightarrow> int \<Rightarrow>
   ('w InertialTorquePartial \<times> MatrixXd) option" where
  "wrtRotationalVelocityOfAcceleratedBody p partialMatrix addContribution startRow startColumn =
     (if addContribution then
        map_option (Pair p)
          (block3_plus_assign partialMatrix startRow startColumn
             (currentPartialDerivativeWrtAngularVelocity p))
      else
        map_option (Pair p)
          (block3_minus_assign partialMatrix startRow startColumn
             (currentPartialDerivativeWrtAngularVelocity p)))"

definition isStateDerivativeDependentOnIntegratedAdditionalStateTypes ::
  "'w InertialTorquePartial \<Rightarrow> string \<times> string \<Rightarrow> 'ist \<Rightarrow> bool \<times> 'w InertialTorquePartial" where
  "isStateDerivativeDependentOnIntegratedAdditionalStateTypes p stateReferencePoint integratedStateType =
     (False, p)"

text \<open>
  The sign-symmetry scenario of the spec: the rotational-velocity partial written with
  \<open>addContribution = true\<close>, then again at the same offsets with \<open>addContribution = false\<close>.
\<close>

definition addThenSubtract ::
  "'w InertialTorquePartial \<Rightarrow> MatrixXd \<Rightarrow> int \<Rightarrow> int \<Rightarrow> ('w InertialTorquePartial \<times> MatrixXd) option" where
  "addThenSubtract p partialMatrix startRow startColumn =
     (case wrtRotationalVelocityOfAcceleratedBody p partialMatrix True startRow startColumn of
        None \<Rightarrow> None
      | Some (p1, M1) \<Rightarrow> wrtRotationalVelocityOfAcceleratedBody p1 M1 False startRow startColumn)"

subsection \<open>Parameter dispatch\<close>

text \<open>
  Modelled from the spec: both overloads of \<open>getParameterPartialFunction\<close> are only declared
  in the header, their bodies are not among the sources. The model follows the dispatch
  table of the spec: a parameter is identified by its kind and the body it belongs to, the
  callable is one of the four protected members that the header declares, and a parameter
  that the torque does not depend on gives no callable and width 0.
\<close>

datatype ScalarParameterKind =
  mean_moment_of_inertia | gravitational_parameter | other_scalar_parameter nat

datatype VectorParameterKind =
  degree_two_cosine_coefficients | degree_two_sine_coefficients | other_vector_parameter nat

datatype ParameterPartialFunction =
  wrtMeanMomentOfInertia | wrtGravitationalParameter
  | wrtCosineSphericalHarmonicCoefficientsOfCentralBody
  | wrtSineSphericalHarmonicCoefficientsOfCentralBody

definition getParameterPartialFunction_double ::
  "'w InertialTorquePartial \<Rightarrow> ScalarParameterKind \<times> string \<Rightarrow> ParameterPartialFunction option \<times> int" where
  "getParameterPartialFunction_double p parameter =
     (case parameter of (kind, body) \<Rightarrow>
        if body = acceleratedBody p then
          (case kind of
             mean_moment_of_inertia \<Rightarrow> (Some wrtMeanMomentOfInertia, 1)
           | gravitational_parameter \<Rightarrow> (Some wrtGravitationalParameter, 1)
           | other_scalar_parameter n \<Rightarrow> (None, 0))
        else (None, 0))"

definition getParameterPartialFunction_vector ::
  "'w InertialTorquePartial \<Rightarrow> VectorParameterKind \<times> string \<Rightarrow> ParameterPartialFunction option \<times> int" where
  "getParameterPartialFunction_vector p parameter =
     (case parameter of (kind, body) \<Rightarrow>
        if body = acceleratedBody p then
          (case kind of
             degree_two_cosine_coefficients \<Rightarrow>
               (Some wrtCosineSphericalHarmonicCoefficientsOfCentralBody, 3)
           | degree_two_sine_coefficients \<Rightarrow>
               (Some wrtSineSphericalHarmonicCoefficientsOfCentralBody, 2)
           | other_vector_parameter n \<Rightarrow> (None, 0))
        else (None, 0))"

subsection \<open>Instrumented accessors\<close>

text \<open>
  To observe which accessors a call of \<open>update\<close> invokes, the world is the list of the
  invocations so far and each accessor returns a fixed value and records itself.
\<close>

datatype BoundAccessor =
  AngularVelocity | InertiaTensor | InertiaTensorNormalization | BodyGravitationalParameter

definition logged :: "BoundAccessor \<Rightarrow> 'a \<Rightarrow> BoundAccessor list \<Rightarrow> 'a \<times> BoundAccessor list" where
  "logged a v calls = (v, calls @ [a])"

definition instrumented ::
  "(BoundAccessor list) InertialTorquePartial \<Rightarrow> Vector3d \<Rightarrow> Matrix3d \<Rightarrow> double \<Rightarrow> double \<Rightarrow>
   (BoundAccessor list) InertialTorquePartial" where
  "instrumented p omega inertia factor mu =
     p\<lparr>angularVelocityFunction := logged AngularVelocity omega,
       inertiaTensorFunction := logged InertiaTensor inertia,
       getInertiaTensorNormalizationFactor := logged InertiaTensorNormalization factor,
       bodyGravitationalParameterFunction := logged BodyGravitationalParameter mu\<rparr>"

text \<open>
  The pseudo-torque \<open>-\<omega> \<times> (I\<omega>)\<close> itself, which the partial differentiates (the spec's
  formula; its computation is not part of this class).
\<close>

definition inertialTorque :: "Matrix3d \<Rightarrow> Vector3d \<Rightarrow> Vector3d" where
  "inertialTorque inertia omega =
     Vector3d_uminus (Vector3d_cross omega (Matrix3d_times_Vector3d inertia omega))"

text \<open>
  The data of the spec's test scenario: \<open>\<omega> = (0.1, 0.2, 0.3)\<close>, \<open>I = diag(1, 2, 3)\<close>, an
  object constructed in zeroed memory with instrumented accessors, and a 3 by 6 block of
  zeros.
\<close>

definition exampleOmega :: Vector3d where
  "exampleOmega = Vector3d (Fin 0.1) (Fin 0.2) (Fin 0.3)"

definition exampleInertia :: Matrix3d where
  "exampleInertia = Matrix3d (Vector3d (Fin 1) (Fin 0) (Fin 0))
                             (Vector3d (Fin 0) (Fin 2) (Fin 0))
                             (Vector3d (Fin 0) (Fin 0) (Fin 3))"

definition zeroMatrix3d :: Matrix3d where
  "zeroMatrix3d = Matrix3d (Vector3d (Fin 0) (Fin 0) (Fin 0))
                           (Vector3d (Fin 0) (Fin 0) (Fin 0))
                           (Vector3d (Fin 0) (Fin 0) (Fin 0))"

definition exampleMemory :: "(BoundAccessor list) InertialTorquePartial" where
  "exampleMemory =
     \<lparr>acceleratedBody = [], acceleratingBody = [], currentTime = Fin 0,
      angularVelocityFunction = Pair (Vector3d (Fin 0) (Fin 0) (Fin 0)),
      inertiaTensorFunction = Pair zeroMatrix3d,
      getInertiaTensorNormalizationFactor = Pair (Fin 0),
      bodyGravitationalParameterFunction = Pair (Fin 0),
      currentAngularVelocityVector = Vector3d (Fin 0) (Fin 0) (Fin 0),
      currentAngularVelocityCrossProductMatrix = zeroMatrix3d,
      currentInertiaTensor = zeroMatrix3d,
      currentInverseInertiaTensor = zeroMatrix3d,
      currentPartialDerivativeWrtAngularVelocity = zeroMatrix3d,
      currentInertiaTensorNormalizationFactor = Fin 0,
      currentGravitationalParameter = Fin 0\<rparr>"

definition exampleProvider :: "(BoundAccessor list) InertialTorquePartial" where
  "exampleProvider =
     InertialTorquePartial_ctor exampleMemory
       (logged AngularVelocity exampleOmega) (logged InertiaTensor exampleInertia)
       (logged InertiaTensorNormalization (Fin 1)) (logged BodyGravitationalParameter (Fin 1))
       ''Moon''"

definition zeroBlock :: "int \<Rightarrow> int \<Rightarrow> MatrixXd" where
  "zeroBlock m n = \<lparr>rows = m, cols = n, coeff = (\<lambda>i j. Fin 0)\<rparr>"

text \<open>
  The same object with an angular-velocity accessor whose first component is NaN, after
  \<open>update( 0.0 )\<close>.
\<close>

definition nanProvider :: "(BoundAccessor list) InertialTorquePartial" where
  "nanProvider =
     fst (update
       (InertialTorquePartial_ctor exampleMemory
          (logged AngularVelocity (Vector3d NaN (Fin 0) (Fin 0))) (logged InertiaTensor exampleInertia)
          (logged InertiaTensorNormalization (Fin 1)) (logged BodyGravitationalParameter (Fin 1))
          ''Moon'') (Fin 0) [])"

section \<open>ContinuousRandomVariableGenerator\<close>

text \<open>
  The Boost engine and the probability distribution are not part of the sources, so the
  functions of the generator take them as a parameter:
  \<^item> \<open>mt19937\<close>: the engine that \<open>boost::random::mt19937\<close> constructs from the seed; a
    Boost engine is a value, and what it yields depends on its own state only;
  \<^item> \<open>uniform_01\<close>: one draw of \<open>boost::random::uniform_01\<close> from the engine it holds,
    giving the value and the engine after the draw;
  \<^item> \<open>evaluateInverseCdf\<close>: the virtual member of the distribution, called through the
    pointer; it gets the distribution object and the probability, and gives the value and
    the distribution object after the call, which it is free to change.
\<close>

record ('g, 'd) Collaborators =
  mt19937 :: "double \<Rightarrow> 'g"
  uniform_01 :: "'g \<Rightarrow> double \<times> 'g"
  evaluateInverseCdf :: "'d \<Rightarrow> double \<Rightarrow> double \<times> 'd"

text \<open>
  The two engines are members by value, so they are part of the generator. The
  distribution is held by \<open>std::shared_ptr\<close>: the generator has its address, the object
  itself lives in a store that all generators see, and two generators given the same
  pointer share one object.
\<close>

record 'g ContinuousRandomVariableGenerator =
  randomNumberGenerator :: 'g
  randomVariable :: nat
  randomUniformCdfGenerator :: 'g


text \<open>
  \<open>getRandomVariableValue\<close> draws from \<open>randomUniformCdfGenerator_\<close> and passes the draw to
  the distribution behind the pointer. It returns the value, the generator and the store
  after the call.
\<close>

definition getRandomVariableValue ::
  "('g, 'd) Collaborators \<Rightarrow> 'g ContinuousRandomVariableGenerator \<Rightarrow> (nat \<Rightarrow> 'd) \<Rightarrow>
   double \<times> 'g ContinuousRandomVariableGenerator \<times> (nat \<Rightarrow> 'd)" where
  "getRandomVariableValue lib gen store =
     (case uniform_01 lib (randomUniformCdfGenerator gen) of (u, engine) \<Rightarrow>
      case evaluateInverseCdf lib (store (randomVariable gen)) u of (v, d) \<Rightarrow>
        (v, gen\<lparr>randomUniformCdfGenerator := engine\<rparr>, store(randomVariable gen := d)))"


text \<open>
  What the values are compared with: the first \<open>n\<close> draws of \<open>uniform_01\<close> from an engine,
  and the values of successive calls of \<open>evaluateInverseCdf\<close> on one distribution object
  that nothing else touches.
\<close>

fun uniformValues :: "('g, 'd) Collaborators \<Rightarrow> nat \<Rightarrow> 'g \<Rightarrow> double list" where
  "uniformValues lib 0 engine = []"
| "uniformValues lib (Suc n) engine =
     (case uniform_01 lib engine of (u, engine') \<Rightarrow> u # uniformValues lib n engine')"

fun inverseCdfValues :: "('g, 'd) Collaborators \<Rightarrow> 'd \<Rightarrow> double list \<Rightarrow> double list" where
  "inverseCdfValues lib d [] = []"
| "inverseCdfValues lib d (u # us) =
     (case evaluateInverseCdf lib d u of (v, d') \<Rightarrow> v # inverseCdfValues lib d' us)"


section \<open>Properties\<close>

subsection \<open>Arithmetic of the model\<close>

lemma double_arith [simp]:
  "Fin u + Fin v = Fin (u + v)" "NaN + a = NaN" "a + NaN = NaN"
  "Fin u - Fin v = Fin (u - v)" "NaN - a = NaN" "a - NaN = NaN"
  "Fin u * Fin v = Fin (u * v)" "NaN * a = NaN" "a * NaN = NaN"
  "- Fin u = Fin (- u)" "- NaN = NaN"
  "Fin u / Fin v = (if v = 0 then NaN else Fin (u / v))" "NaN / a = NaN" "a / NaN = NaN"
  by (simp_all add: plus_double_def minus_double_def times_double_def uminus_double_def
      divide_double_def split: double.splits)

lemma double_numeral [simp]: "(0::double) = Fin 0" "(1::double) = Fin 1"
  by (simp_all add: zero_double_def one_double_def)

lemma double_eq_NaN [simp]: "double_eq a NaN = False" "double_eq NaN a = False"
  by (cases a; simp)+



lemma add_sub_zero: "isfinite a \<Longrightarrow> (Fin 0 + a) - a = Fin 0"
  by (cases a) simp_all

lemma Vector3d_finiteE:
  assumes "Vector3d_finite v"
  obtains a b c where "v = Vector3d (Fin a) (Fin b) (Fin c)"
  using assms by (cases v) (metis Vector3d_finite.simps isfinite.elims(2))

lemma Matrix3d_finiteE:
  assumes "Matrix3d_finite M"
  obtains r0 r1 r2 where "M = Matrix3d r0 r1 r2"
    "Vector3d_finite r0" "Vector3d_finite r1" "Vector3d_finite r2"
  using assms by (cases M) simp

lemma Matrix3d_coeff_finite:
  "Matrix3d_finite P \<Longrightarrow> isfinite (Matrix3d_coeff P i j)"
  by (cases P rule: Matrix3d_finite.cases) (auto elim!: Vector3d_finite.elims)

subsection \<open>The cross-product matrix and the analytic partial\<close>

text \<open>
  The matrix modelled for \<open>getCrossProductMatrix\<close> is the one the spec describes: it is
  skew-symmetric, and on finite vectors applying it is taking the cross product.
\<close>

lemma getCrossProductMatrix_skew:
  "Matrix3d_transpose (getCrossProductMatrix v) = Matrix3d_uminus (getCrossProductMatrix v)"
proof (cases v)
  case (Vector3d a b c)
  have "- (- d) = d" for d :: double by (cases d) simp_all
  with Vector3d show ?thesis by simp
qed

lemma getCrossProductMatrix_times:
  assumes "Vector3d_finite v" "Vector3d_finite w"
  shows "Matrix3d_times_Vector3d (getCrossProductMatrix v) w = Vector3d_cross v w"
proof -
  from assms(1) obtain a b c where v: "v = Vector3d (Fin a) (Fin b) (Fin c)"
    by (rule Vector3d_finiteE)
  from assms(2) obtain d e f where w: "w = Vector3d (Fin d) (Fin e) (Fin f)"
    by (rule Vector3d_finiteE)
  show ?thesis by (simp add: v w)
qed

text \<open>
  The matrix that \<open>update\<close> caches is the derivative of \<open>-\<omega> \<times> (I\<omega>)\<close> with respect to
  \<open>\<omega>\<close>: on finite values the torque at \<open>\<omega> + h\<close> is the torque at \<open>\<omega>\<close>, plus the matrix
  applied to \<open>h\<close>, plus a term of second order in \<open>h\<close>.
\<close>

lemma partial_is_derivative:
  assumes "Matrix3d_finite inertia" "Vector3d_finite omega" "Vector3d_finite h"
  shows "inertialTorque inertia (Vector3d_plus omega h) =
         Vector3d_plus
           (Vector3d_plus (inertialTorque inertia omega)
              (Matrix3d_times_Vector3d
                 (Matrix3d_plus
                    (Matrix3d_times (Matrix3d_uminus (getCrossProductMatrix omega)) inertia)
                    (getCrossProductMatrix (Matrix3d_times_Vector3d inertia omega))) h))
           (inertialTorque inertia h)"
proof -
  from assms(1) obtain r0 r1 r2 where M: "inertia = Matrix3d r0 r1 r2"
    and r: "Vector3d_finite r0" "Vector3d_finite r1" "Vector3d_finite r2"
    by (rule Matrix3d_finiteE)
  from r(1) obtain a b c where r0: "r0 = Vector3d (Fin a) (Fin b) (Fin c)"
    by (rule Vector3d_finiteE)
  from r(2) obtain d e f where r1: "r1 = Vector3d (Fin d) (Fin e) (Fin f)"
    by (rule Vector3d_finiteE)
  from r(3) obtain g k l where r2: "r2 = Vector3d (Fin g) (Fin k) (Fin l)"
    by (rule Vector3d_finiteE)
  from assms(2) obtain x y z where om: "omega = Vector3d (Fin x) (Fin y) (Fin z)"
    by (rule Vector3d_finiteE)
  from assms(3) obtain u v w where h: "h = Vector3d (Fin u) (Fin v) (Fin w)"
    by (rule Vector3d_finiteE)
  show ?thesis
    by (simp add: M r0 r1 r2 om h inertialTorque_def algebra_simps)
qed

subsection \<open>update\<close>

lemmas example_defs = exampleProvider_def exampleMemory_def InertialTorquePartial_ctor_def
  exampleOmega_def exampleInertia_def zeroMatrix3d_def logged_def TUDAT_NAN_def

lemma update_never_assigns_currentTime:
  "currentTime (fst (update p time w)) = currentTime p"
  by (simp add: update_def split: prod.splits)

lemma update_keeps_accessors:
  "angularVelocityFunction (fst (update p time w)) = angularVelocityFunction p"
  "inertiaTensorFunction (fst (update p time w)) = inertiaTensorFunction p"
  "getInertiaTensorNormalizationFactor (fst (update p time w)) =
     getInertiaTensorNormalizationFactor p"
  "bodyGravitationalParameterFunction (fst (update p time w)) =
     bodyGravitationalParameterFunction p"
  by (simp_all add: update_def split: prod.splits)

lemma update_reuse:
  "double_eq (currentTime p) time \<Longrightarrow> update p time w = (p, w)"
  by (simp add: update_def)

lemma update_refresh:
  assumes "\<not> double_eq (currentTime p) time"
    and "angularVelocityFunction p w = (omega, w1)"
    and "getInertiaTensorNormalizationFactor p w1 = (factor, w2)"
    and "bodyGravitationalParameterFunction p w2 = (mu, w3)"
    and "inertiaTensorFunction p w3 = (inertia, w4)"
  shows "update p time w =
     (p\<lparr>currentAngularVelocityVector := omega,
        currentAngularVelocityCrossProductMatrix := getCrossProductMatrix omega,
        currentInertiaTensorNormalizationFactor := factor,
        currentGravitationalParameter := mu,
        currentInertiaTensor := inertia,
        currentInverseInertiaTensor := Matrix3d_inverse inertia,
        currentPartialDerivativeWrtAngularVelocity :=
          Matrix3d_plus
            (Matrix3d_times (Matrix3d_uminus (getCrossProductMatrix omega)) inertia)
            (getCrossProductMatrix (Matrix3d_times_Vector3d inertia omega))\<rparr>, w4)"
  using assms by (simp add: update_def)

text \<open>
  With instrumented accessors, a call whose epoch compares unequal to the marker invokes
  each of the four accessors exactly once; a call whose epoch compares equal invokes none.
\<close>

lemma update_refresh_invocations:
  "\<not> double_eq (currentTime p) time \<Longrightarrow>
   snd (update (instrumented p omega inertia factor mu) time calls) =
     calls @ [AngularVelocity, InertiaTensorNormalization, BodyGravitationalParameter, InertiaTensor]"
  by (simp add: update_def instrumented_def logged_def)

lemma update_reuse_invocations:
  "double_eq (currentTime p) time \<Longrightarrow>
   update (instrumented p omega inertia factor mu) time calls =
     (instrumented p omega inertia factor mu, calls)"
  by (simp add: update_def instrumented_def)

lemma examplePartial:
  "currentPartialDerivativeWrtAngularVelocity (fst (update exampleProvider (Fin 0) [])) =
     Matrix3d (Vector3d (Fin 0) (Fin (- 0.3)) (Fin (- 0.2)))
              (Vector3d (Fin 0.6) (Fin 0) (Fin 0.2))
              (Vector3d (Fin (- 0.2)) (Fin (- 0.1)) (Fin 0))"
  by (simp add: update_def example_defs)

lemma nanPartial:
  "currentPartialDerivativeWrtAngularVelocity nanProvider =
     Matrix3d (Vector3d (Fin 0) NaN NaN)
              (Vector3d NaN NaN NaN)
              (Vector3d NaN NaN NaN)"
  by (simp add: nanProvider_def update_def example_defs)

text \<open>
  C1. When a call of \<open>update\<close> refreshes (the epoch compares unequal to the marker), and the
  accessors return the angular velocity \<open>\<omega>\<close> and the inertia tensor \<open>I\<close> in that call, the
  cached partial with respect to the angular velocity is \<open>-[\<omega>\<times>] I + [(I \<omega>)\<times>]\<close>.
\<close>

theorem update_caches_analytic_partial:
  assumes "\<not> double_eq (currentTime p) time"
    and "angularVelocityFunction p w = (omega, w1)"
    and "getInertiaTensorNormalizationFactor p w1 = (factor, w2)"
    and "bodyGravitationalParameterFunction p w2 = (mu, w3)"
    and "inertiaTensorFunction p w3 = (inertia, w4)"
  shows "currentPartialDerivativeWrtAngularVelocity (fst (update p time w)) =
          Matrix3d_plus
            (Matrix3d_times (Matrix3d_uminus (getCrossProductMatrix omega)) inertia)
            (getCrossProductMatrix (Matrix3d_times_Vector3d inertia omega))"
  using assms by (simp add: update_def)

theorem update_caches_analytic_partial_witness:
  "\<not> double_eq (currentTime exampleProvider) (Fin 0) \<and>
   currentPartialDerivativeWrtAngularVelocity (fst (update exampleProvider (Fin 0) [])) =
     Matrix3d (Vector3d (Fin 0) (Fin (- 0.3)) (Fin (- 0.2)))
              (Vector3d (Fin 0.6) (Fin 0) (Fin 0.2))
              (Vector3d (Fin (- 0.2)) (Fin (- 0.1)) (Fin 0))"
  using update_caches_analytic_partial [of exampleProvider "Fin 0" "[]" exampleOmega
      "[AngularVelocity]" "Fin 1"
      "[AngularVelocity, InertiaTensorNormalization]" "Fin 1"
      "[AngularVelocity, InertiaTensorNormalization, BodyGravitationalParameter]" exampleInertia
      "[AngularVelocity, InertiaTensorNormalization, BodyGravitationalParameter, InertiaTensor]"]
  by (simp add: example_defs)

text \<open>
  C2. On a newly constructed object, \<open>update( 0.0 )\<close> followed by \<open>update( 0.0 )\<close> invokes
  the four accessors twice each: the second call with the identical epoch invokes them all
  again, because the first call left the epoch marker at the sentinel.
\<close>

theorem update_same_epoch_invokes_accessors_again:
  "snd (update (fst (update exampleProvider (Fin 0) [])) (Fin 0)
          (snd (update exampleProvider (Fin 0) []))) =
   [AngularVelocity, InertiaTensorNormalization, BodyGravitationalParameter, InertiaTensor,
    AngularVelocity, InertiaTensorNormalization, BodyGravitationalParameter, InertiaTensor]"
  by (simp add: update_def example_defs)

text \<open>
  C3. On a newly constructed object, after \<open>update( 0.0 )\<close> the epoch marker is still the
  not-a-time sentinel and not the epoch 0.0 that the call was given.
\<close>

theorem update_leaves_epoch_marker_at_sentinel:
  "currentTime (fst (update exampleProvider (Fin 0) [])) = NaN \<and>
   \<not> double_eq (currentTime (fst (update exampleProvider (Fin 0) []))) (Fin 0)"
  by (simp add: update_def example_defs)

text \<open>
  C9. The sentinel compares unequal to itself, so \<open>update\<close> called with \<open>TUDAT_NAN\<close> twice in
  succession, on an object in any state, refreshes the whole cache both times and invokes
  each of the four accessors in each of the two calls.
\<close>

theorem update_sentinel_refreshes_every_time:
  "\<not> double_eq TUDAT_NAN TUDAT_NAN \<and>
   (case update (instrumented p omega inertia factor mu) TUDAT_NAN calls of (p1, calls1) \<Rightarrow>
    case update p1 TUDAT_NAN calls1 of (p2, calls2) \<Rightarrow>
      calls1 = calls @ [AngularVelocity, InertiaTensorNormalization,
                        BodyGravitationalParameter, InertiaTensor] \<and>
      calls2 = calls1 @ [AngularVelocity, InertiaTensorNormalization,
                         BodyGravitationalParameter, InertiaTensor] \<and>
      currentAngularVelocityVector p1 = omega \<and>
      currentAngularVelocityCrossProductMatrix p1 = getCrossProductMatrix omega \<and>
      currentInertiaTensorNormalizationFactor p1 = factor \<and>
      currentGravitationalParameter p1 = mu \<and>
      currentInertiaTensor p1 = inertia \<and>
      currentInverseInertiaTensor p1 = Matrix3d_inverse inertia \<and>
      currentPartialDerivativeWrtAngularVelocity p1 =
        Matrix3d_plus
          (Matrix3d_times (Matrix3d_uminus (getCrossProductMatrix omega)) inertia)
          (getCrossProductMatrix (Matrix3d_times_Vector3d inertia omega)) \<and>
      p2 = p1)"
  by (simp add: update_def instrumented_def logged_def TUDAT_NAN_def)


subsection \<open>The state partials\<close>

text \<open>
  Offsets at which the 3 by 3 sub-block does not lie within the block fail Eigen's
  assertion: nothing is written.
\<close>

lemma wrtRotationalVelocity_out_of_range:
  "\<not> block_fits M startRow startColumn 3 3 \<Longrightarrow>
   wrtRotationalVelocityOfAcceleratedBody p M addContribution startRow startColumn = None"
  by (simp add: wrtRotationalVelocityOfAcceleratedBody_def block3_plus_assign_def
      block3_minus_assign_def)

text \<open>
  C5. For every block, offsets at which the 3 by 3 sub-block lies within the block, and
  flag \<open>addContribution\<close>, \<open>wrtRotationalVelocityOfAcceleratedBody\<close> returns the block with
  the cached partial added to the sub-block at \<open>(startRow, startColumn)\<close> when the flag is
  true and subtracted from it when the flag is false; every entry outside the sub-block,
  the dimensions of the block and the object are as before.
\<close>

theorem wrtRotationalVelocity_writes_sub_block_only:
  assumes "block_fits M startRow startColumn 3 3"
  shows "\<exists>M'. wrtRotationalVelocityOfAcceleratedBody p M addContribution startRow startColumn =
                Some (p, M')
     \<and> rows M' = rows M \<and> cols M' = cols M
     \<and> (\<forall>i j. in_block3 startRow startColumn i j \<longrightarrow>
           coeff M' i j =
             (if addContribution
              then coeff M i j + Matrix3d_coeff (currentPartialDerivativeWrtAngularVelocity p)
                                   (i - startRow) (j - startColumn)
              else coeff M i j - Matrix3d_coeff (currentPartialDerivativeWrtAngularVelocity p)
                                   (i - startRow) (j - startColumn)))
     \<and> (\<forall>i j. \<not> in_block3 startRow startColumn i j \<longrightarrow> coeff M' i j = coeff M i j)"
  using assms
  by (simp add: wrtRotationalVelocityOfAcceleratedBody_def block3_plus_assign_def
      block3_minus_assign_def)

theorem wrtRotationalVelocity_writes_sub_block_only_witness:
  "block_fits (zeroBlock 3 6) 0 3 3 3 \<and>
   (\<exists>M'. wrtRotationalVelocityOfAcceleratedBody (fst (update exampleProvider (Fin 0) []))
            (zeroBlock 3 6) True 0 3 = Some (fst (update exampleProvider (Fin 0) []), M') \<and>
          coeff M' 1 3 = Fin 0.6 \<and> coeff M' 1 2 = Fin 0)"
proof -
  let ?p = "fst (update exampleProvider (Fin 0) [])"
  have fits: "block_fits (zeroBlock 3 6) 0 3 3 3"
    by (simp add: block_fits_def zeroBlock_def)
  from wrtRotationalVelocity_writes_sub_block_only [OF fits, of ?p True]
  obtain M' where M': "wrtRotationalVelocityOfAcceleratedBody ?p (zeroBlock 3 6) True 0 3 =
      Some (?p, M')"
    and inside: "\<forall>i j. in_block3 0 3 i j \<longrightarrow> coeff M' i j =
       coeff (zeroBlock 3 6) i j +
       Matrix3d_coeff (currentPartialDerivativeWrtAngularVelocity ?p) (i - 0) (j - 3)"
    and outside: "\<forall>i j. \<not> in_block3 0 3 i j \<longrightarrow> coeff M' i j = coeff (zeroBlock 3 6) i j"
    by auto
  from inside have "coeff M' 1 3 = Fin 0.6"
    by (simp add: in_block3_def examplePartial zeroBlock_def)
  moreover from outside have "coeff M' 1 2 = Fin 0"
    by (simp add: in_block3_def zeroBlock_def)
  ultimately show ?thesis using fits M' by blast
qed

text \<open>
  C6, as the claim states it, fails: when the cached partial has a NaN entry (here after
  \<open>update( 0.0 )\<close> with an angular velocity whose first component is NaN), adding it to a
  block of zeros and subtracting it again leaves NaN in the block, not zero.
\<close>

theorem add_then_subtract_NaN_counterexample:
  "addThenSubtract nanProvider (zeroBlock 3 6) 0 3 \<noteq> None \<and>
   coeff (snd (the (addThenSubtract nanProvider (zeroBlock 3 6) 0 3))) 1 3 = NaN"
  by (simp add: addThenSubtract_def wrtRotationalVelocityOfAcceleratedBody_def
      block3_plus_assign_def block3_minus_assign_def block_fits_def in_block3_def zeroBlock_def
      nanPartial)

text \<open>
  C6, amended. For every block whose entries are zero, offsets at which the 3 by 3
  sub-block lies within the block, and cached state whose partial with respect to the
  angular velocity has finite entries only, writing the partial with
  \<open>addContribution = true\<close> and then with the same offsets and \<open>addContribution = false\<close>
  returns a block of the same dimensions whose entries are all exactly zero, and leaves
  the object as it was.
\<close>

theorem add_then_subtract_restores_zero_block:
  assumes "block_fits M startRow startColumn 3 3"
    and "\<forall>i j. 0 \<le> i \<and> i < rows M \<and> 0 \<le> j \<and> j < cols M \<longrightarrow> coeff M i j = 0"
    and "Matrix3d_finite (currentPartialDerivativeWrtAngularVelocity p)"
  shows "\<exists>M'. addThenSubtract p M startRow startColumn = Some (p, M') \<and>
           rows M' = rows M \<and> cols M' = cols M \<and>
           (\<forall>i j. 0 \<le> i \<and> i < rows M \<and> 0 \<le> j \<and> j < cols M \<longrightarrow> coeff M' i j = 0)"
proof -
  let ?P = "currentPartialDerivativeWrtAngularVelocity p"
  define M1 where "M1 = M\<lparr>coeff := (\<lambda>i j. if in_block3 startRow startColumn i j
      then coeff M i j + Matrix3d_coeff ?P (i - startRow) (j - startColumn) else coeff M i j)\<rparr>"
  define M2 where "M2 = M1\<lparr>coeff := (\<lambda>i j. if in_block3 startRow startColumn i j
      then coeff M1 i j - Matrix3d_coeff ?P (i - startRow) (j - startColumn) else coeff M1 i j)\<rparr>"
  have fin: "isfinite (Matrix3d_coeff ?P i j)" for i j
    using assms(3) by (rule Matrix3d_coeff_finite)
  have first: "wrtRotationalVelocityOfAcceleratedBody p M True startRow startColumn = Some (p, M1)"
    using assms(1)
    by (simp add: wrtRotationalVelocityOfAcceleratedBody_def block3_plus_assign_def M1_def)
  have fits1: "block_fits M1 startRow startColumn 3 3"
    using assms(1) by (simp add: block_fits_def M1_def)
  have second: "wrtRotationalVelocityOfAcceleratedBody p M1 False startRow startColumn = Some (p, M2)"
    using fits1
    by (simp add: wrtRotationalVelocityOfAcceleratedBody_def block3_minus_assign_def M2_def)
  have inside: "0 \<le> i \<and> i < rows M \<and> 0 \<le> j \<and> j < cols M"
    if "in_block3 startRow startColumn i j" for i j
    using that assms(1) by (auto simp: in_block3_def block_fits_def)
  have "coeff M2 i j = coeff M i j" for i j
  proof (cases "in_block3 startRow startColumn i j")
    case True
    with inside assms(2) have "coeff M i j = Fin 0" by simp
    with True add_sub_zero [OF fin] show ?thesis by (simp add: M2_def M1_def)
  next
    case False
    then show ?thesis by (simp add: M2_def M1_def)
  qed
  with assms(2)
  have zero: "\<forall>i j. 0 \<le> i \<and> i < rows M \<and> 0 \<le> j \<and> j < cols M \<longrightarrow> coeff M2 i j = 0"
    by simp
  have dims: "rows M2 = rows M" "cols M2 = cols M"
    by (simp_all add: M2_def M1_def)
  from first second have "addThenSubtract p M startRow startColumn = Some (p, M2)"
    by (simp add: addThenSubtract_def)
  with dims zero show ?thesis by blast
qed

theorem add_then_subtract_restores_zero_block_witness:
  "block_fits (zeroBlock 3 6) 0 3 3 3 \<and>
   Matrix3d_finite
     (currentPartialDerivativeWrtAngularVelocity (fst (update exampleProvider (Fin 0) []))) \<and>
   (\<exists>M'. addThenSubtract (fst (update exampleProvider (Fin 0) [])) (zeroBlock 3 6) 0 3 =
            Some (fst (update exampleProvider (Fin 0) []), M') \<and>
          coeff M' 1 3 = 0)"
proof -
  let ?p = "fst (update exampleProvider (Fin 0) [])"
  have fits: "block_fits (zeroBlock 3 6) 0 3 3 3"
    by (simp add: block_fits_def zeroBlock_def)
  have zero: "\<forall>i j. 0 \<le> i \<and> i < rows (zeroBlock 3 6) \<and> 0 \<le> j \<and> j < cols (zeroBlock 3 6) \<longrightarrow>
      coeff (zeroBlock 3 6) i j = 0"
    by (simp add: zeroBlock_def)
  have fin: "Matrix3d_finite (currentPartialDerivativeWrtAngularVelocity ?p)"
    by (simp add: examplePartial)
  from add_then_subtract_restores_zero_block [OF fits zero fin]
  obtain M' where "addThenSubtract ?p (zeroBlock 3 6) 0 3 = Some (?p, M')"
    and "\<forall>i j. 0 \<le> i \<and> i < rows (zeroBlock 3 6) \<and> 0 \<le> j \<and> j < cols (zeroBlock 3 6) \<longrightarrow>
           coeff M' i j = 0"
    by auto
  moreover from this(2) have "coeff M' 1 3 = 0"
    by (simp add: zeroBlock_def)
  ultimately show ?thesis using fits fin by blast
qed

text \<open>
  C7. For every block, offsets and flag, \<open>wrtOrientationOfAcceleratedBody\<close> returns the
  block and the object exactly as they were given.
\<close>

theorem wrtOrientation_leaves_block_and_object:
  "wrtOrientationOfAcceleratedBody p M addContribution startRow startColumn = (p, M)"
  by (simp add: wrtOrientationOfAcceleratedBody_def)

text \<open>
  C8. For every state reference point and integrated state type, both dependency
  predicates return false and leave the object as it was.
\<close>

theorem dependency_predicates_return_false:
  "isStateDerivativeDependentOnIntegratedNonRotationalState p stateReferencePoint
     integratedStateType = (False, p) \<and>
   isStateDerivativeDependentOnIntegratedAdditionalStateTypes p stateReferencePoint
     integratedStateType = (False, p)"
  by (simp add: isStateDerivativeDependentOnIntegratedNonRotationalState_def
      isStateDerivativeDependentOnIntegratedAdditionalStateTypes_def)

subsection \<open>Parameter dispatch\<close>

text \<open>
  C4. \<open>getParameterPartialFunction\<close> gives width 1 for the mean moment of inertia of the
  accelerated body, width 1 for its gravitational parameter, width 3 for its degree-two
  cosine coefficients and width 2 for its degree-two sine coefficients, each with the
  member function that computes the partial; for a parameter of another body, or of any
  other kind, it gives width 0 and no callable. The result is always a pair, never an
  error.
\<close>

theorem getParameterPartialFunction_widths:
  "getParameterPartialFunction_double p (mean_moment_of_inertia, acceleratedBody p) =
     (Some wrtMeanMomentOfInertia, 1) \<and>
   getParameterPartialFunction_double p (gravitational_parameter, acceleratedBody p) =
     (Some wrtGravitationalParameter, 1) \<and>
   getParameterPartialFunction_vector p (degree_two_cosine_coefficients, acceleratedBody p) =
     (Some wrtCosineSphericalHarmonicCoefficientsOfCentralBody, 3) \<and>
   getParameterPartialFunction_vector p (degree_two_sine_coefficients, acceleratedBody p) =
     (Some wrtSineSphericalHarmonicCoefficientsOfCentralBody, 2) \<and>
   (\<forall>kind body. body \<noteq> acceleratedBody p \<or> (\<exists>n. kind = other_scalar_parameter n) \<longrightarrow>
      getParameterPartialFunction_double p (kind, body) = (None, 0)) \<and>
   (\<forall>kind body. body \<noteq> acceleratedBody p \<or> (\<exists>n. kind = other_vector_parameter n) \<longrightarrow>
      getParameterPartialFunction_vector p (kind, body) = (None, 0))"
  by (auto simp: getParameterPartialFunction_double_def getParameterPartialFunction_vector_def)

theorem getParameterPartialFunction_widths_witness:
  "getParameterPartialFunction_double exampleProvider (mean_moment_of_inertia, ''Moon'') =
     (Some wrtMeanMomentOfInertia, 1) \<and>
   getParameterPartialFunction_vector exampleProvider (degree_two_cosine_coefficients, ''Moon'') =
     (Some wrtCosineSphericalHarmonicCoefficientsOfCentralBody, 3) \<and>
   getParameterPartialFunction_double exampleProvider (gravitational_parameter, ''Earth'') =
     (None, 0) \<and>
   getParameterPartialFunction_vector exampleProvider (other_vector_parameter 7, ''Moon'') =
     (None, 0)"
proof -
  have body: "acceleratedBody exampleProvider = ''Moon''"
    by (simp add: example_defs)
  from getParameterPartialFunction_widths [of exampleProvider] show ?thesis
    unfolding body by auto
qed

subsection \<open>The random variable generator\<close>

lemma length_uniformValues [simp]: "length (uniformValues lib n engine) = n"
  by (induction n arbitrary: engine) (auto split: prod.splits)

lemma length_inverseCdfValues [simp]: "length (inverseCdfValues lib d us) = length us"
  by (induction us arbitrary: d) (auto split: prod.splits)



text \<open>
  A call changes the engine of the generator it is made on and the distribution object
  behind that generator's pointer, and nothing else.
\<close>

lemma getRandomVariableValue_effect:
  assumes "uniform_01 lib (randomUniformCdfGenerator gen) = (u, engine)"
    and "evaluateInverseCdf lib (store (randomVariable gen)) u = (v, d)"
  shows "getRandomVariableValue lib gen store =
           (v, gen\<lparr>randomUniformCdfGenerator := engine\<rparr>, store(randomVariable gen := d))"
  using assms by (simp add: getRandomVariableValue_def)





end
